theory Spec2Isabelle
  imports Main
begin

section \<open>Python strings\<close>

text \<open>
  A Python \<open>str\<close> is modelled as a \<^typ>\<open>string\<close>: a \<^typ>\<open>char\<close> stands for the code
  point of the same number, so the model covers texts over the code points 0 to 255.
  The functions of this section are the string methods and the regular expressions that
  \<open>enhanced_question_processor.py\<close> calls.
\<close>

text \<open>\<open>str.isspace\<close> on one character (also the class \<open>\s\<close> of \<open>re\<close>).\<close>

definition isspace :: "char \<Rightarrow> bool" where
  "isspace c = (c \<in> set [CHR 0x09, CHR 0x0A, CHR 0x0B, CHR 0x0C, CHR 0x0D,
                          CHR 0x1C, CHR 0x1D, CHR 0x1E, CHR 0x1F, CHR 0x20,
                          CHR 0x85, CHR 0xA0])"

definition lstrip :: "string \<Rightarrow> string" where
  "lstrip s = dropWhile isspace s"

definition rstrip :: "string \<Rightarrow> string" where
  "rstrip s = rev (dropWhile isspace (rev s))"

definition strip :: "string \<Rightarrow> string" where
  "strip s = lstrip (rstrip s)"

fun startswith :: "string \<Rightarrow> string \<Rightarrow> bool" where
  "startswith s [] = True"
| "startswith [] (p # ps) = False"
| "startswith (c # cs) (p # ps) = (c = p \<and> startswith cs ps)"

definition endswith :: "string \<Rightarrow> string \<Rightarrow> bool" where
  "endswith s suf = startswith (rev s) (rev suf)"

text \<open>
  \<open>partition_str s sep\<close> is the first (leftmost) occurrence of \<open>sep\<close> in \<open>s\<close>: the text
  before it and the text after it, or \<open>None\<close> when \<open>sep\<close> does not occur. Python's
  \<open>sep in s\<close>, \<open>s.split(sep, 1)\<close>, \<open>s.split(sep)\<close> and \<open>s.replace(old, new)\<close> all
  search for occurrences from left to right in this way.
\<close>

fun partition_str :: "string \<Rightarrow> string \<Rightarrow> (string \<times> string) option" where
  "partition_str [] sep = (if sep = [] then Some ([], []) else None)"
| "partition_str (c # cs) sep =
     (if startswith (c # cs) sep then Some ([], drop (length sep) (c # cs))
      else map_option (\<lambda>(a, b). (c # a, b)) (partition_str cs sep))"

definition contains :: "string \<Rightarrow> string \<Rightarrow> bool" where
  "contains s sub = (partition_str s sub \<noteq> None)"

lemma startswith_append: "startswith s p \<Longrightarrow> s = p @ drop (length p) s"
  by (induction s p rule: startswith.induct) auto

lemma partition_str_decomp: "partition_str s sep = Some (a, b) \<Longrightarrow> s = a @ sep @ b"
proof (induction s arbitrary: a)
  case Nil
  then show ?case by (auto split: if_splits)
next
  case (Cons c cs)
  show ?case
  proof (cases "startswith (c # cs) sep")
    case True
    with Cons.prems have "a = []" "b = drop (length sep) (c # cs)" by auto
    with startswith_append[OF True] show ?thesis by simp
  next
    case False
    with Cons.prems obtain a' where "partition_str cs sep = Some (a', b)" "a = c # a'"
      by auto
    with Cons.IH show ?thesis by simp
  qed
qed

lemma partition_str_shorter:
  "sep \<noteq> [] \<Longrightarrow> partition_str s sep = Some (a, b) \<Longrightarrow> length b < length s"
  by (drule partition_str_decomp) (cases sep, auto)

text \<open>
  \<open>s.split(sep)\<close>. Python raises \<open>ValueError\<close> for an empty separator; every call of
  the program passes a non-empty literal, and the model returns \<open>[]\<close> there.
\<close>

function py_split :: "string \<Rightarrow> string \<Rightarrow> string list" where
  "py_split s sep =
     (if sep = [] then []
      else case partition_str s sep of
             None \<Rightarrow> [s]
           | Some (a, b) \<Rightarrow> a # py_split b sep)"
  by pat_completeness auto
termination
  by (relation "measure (\<lambda>(s, sep). length s)") (auto simp: partition_str_shorter)

declare py_split.simps [simp del]

text \<open>\<open>s.replace(old, new)\<close>, for the non-empty \<open>old\<close> the program passes.\<close>

function replace :: "string \<Rightarrow> string \<Rightarrow> string \<Rightarrow> string" where
  "replace s old new =
     (if old = [] then s
      else case partition_str s old of
             None \<Rightarrow> s
           | Some (a, b) \<Rightarrow> a @ new @ replace b old new)"
  by pat_completeness auto
termination
  by (relation "measure (\<lambda>(s, old, new). length s)") (auto simp: partition_str_shorter)

declare replace.simps [simp del]

text \<open>\<open>s.replace(old, new, 1)\<close>: the first occurrence only.\<close>

definition replace1 :: "string \<Rightarrow> string \<Rightarrow> string \<Rightarrow> string" where
  "replace1 s old new =
     (case partition_str s old of None \<Rightarrow> s | Some (a, b) \<Rightarrow> a @ new @ b)"

text \<open>\<open>sep.join(xs)\<close>.\<close>

fun join :: "string \<Rightarrow> string list \<Rightarrow> string" where
  "join sep [] = []"
| "join sep [x] = x"
| "join sep (x # y # ys) = x @ sep @ join sep (y # ys)"

text \<open>The lines of a section: \<open>[l.strip() for l in s.strip().split('\n') if l.strip()]\<close>.\<close>

definition stripped_lines :: "string \<Rightarrow> string list" where
  "stripped_lines s =
     map strip (filter (\<lambda>l. strip l \<noteq> []) (py_split (strip s) [CHR 0x0A]))"

text \<open>\<open>str(i)\<close> for a natural number.\<close>

definition digit_char :: "nat \<Rightarrow> char" where
  "digit_char d = char_of (48 + d)"

fun str_nat :: "nat \<Rightarrow> string" where
  "str_nat i = (if i < 10 then [digit_char i] else str_nat (i div 10) @ [digit_char (i mod 10)])"

text \<open>
  \<open>int(s)\<close> on a string: surrounding whitespace is ignored, one sign is allowed, and the
  digits may be grouped by single underscores. \<open>None\<close> stands for \<open>ValueError\<close>.
\<close>

definition digit_of :: "char \<Rightarrow> nat option" where
  "digit_of c =
     (if 48 \<le> (of_char c :: nat) \<and> (of_char c :: nat) \<le> 57 then Some (of_char c - 48) else None)"

fun py_digits :: "nat \<Rightarrow> string \<Rightarrow> nat option" where
  "py_digits acc [] = Some acc"
| "py_digits acc [c] = map_option (\<lambda>d. 10 * acc + d) (digit_of c)"
| "py_digits acc (c # d # cs) =
     (if c = CHR ''_''
      then (case digit_of d of None \<Rightarrow> None | Some v \<Rightarrow> py_digits (10 * acc + v) cs)
      else (case digit_of c of None \<Rightarrow> None | Some v \<Rightarrow> py_digits (10 * acc + v) (d # cs)))"

definition py_unsigned :: "string \<Rightarrow> nat option" where
  "py_unsigned s =
     (case s of
        [] \<Rightarrow> None
      | c # cs \<Rightarrow> (case digit_of c of None \<Rightarrow> None | Some v \<Rightarrow> py_digits v cs))"

definition py_int :: "string \<Rightarrow> int option" where
  "py_int s =
     (case strip s of
        [] \<Rightarrow> None
      | c # cs \<Rightarrow>
          if c = CHR ''-'' then map_option (\<lambda>v. - int v) (py_unsigned cs)
          else if c = CHR ''+'' then map_option int (py_unsigned cs)
          else map_option int (py_unsigned (c # cs)))"

text \<open>\<open>a or b\<close> on two results of \<open>dict.get\<close>: \<open>None\<close> and the empty string are falsy.\<close>

definition truthy :: "string option \<Rightarrow> bool" where
  "truthy a = (case a of None \<Rightarrow> False | Some v \<Rightarrow> v \<noteq> [])"

definition py_or :: "string option \<Rightarrow> string option \<Rightarrow> string option" where
  "py_or a b = (if truthy a then a else b)"

subsection \<open>The regular expressions\<close>

definition is_letter :: "char \<Rightarrow> bool" where
  "is_letter c =
     ((65 \<le> (of_char c :: nat) \<and> (of_char c :: nat) \<le> 90) \<or>
      (97 \<le> (of_char c :: nat) \<and> (of_char c :: nat) \<le> 122))"

text \<open>
  One match of \<open>\\[a-zA-Z]+(?:\{[^}]*\})?\<close> at the head of a string: the matched text and
  the rest. The letters are taken greedily; the brace group is taken when it closes.
\<close>

definition match_braces :: "string \<Rightarrow> (string \<times> string) option" where
  "match_braces s =
     (case s of
        [] \<Rightarrow> None
      | b # bs \<Rightarrow>
          if b = CHR ''{'' then
            (case dropWhile (\<lambda>x. x \<noteq> CHR ''}'') bs of
               [] \<Rightarrow> None
             | e # after \<Rightarrow> Some (b # takeWhile (\<lambda>x. x \<noteq> CHR ''}'') bs @ [e], after))
          else None)"

definition match_command :: "string \<Rightarrow> (string \<times> string) option" where
  "match_command s =
     (case s of
        [] \<Rightarrow> None
      | c # cs \<Rightarrow>
          if c = CHR 0x5C \<and> takeWhile is_letter cs \<noteq> [] then
            (case match_braces (dropWhile is_letter cs) of
               Some (g, after) \<Rightarrow> Some (c # takeWhile is_letter cs @ g, after)
             | None \<Rightarrow> Some (c # takeWhile is_letter cs, dropWhile is_letter cs))
          else None)"

lemma length_dropWhile_Cons:
  "dropWhile P xs = y # ys \<Longrightarrow> length ys < length xs"
  using length_dropWhile_le[of P xs] by simp

lemma match_braces_shorter:
  "match_braces s = Some (g, r) \<Longrightarrow> length r < length s"
  by (auto simp: match_braces_def split: list.splits if_splits dest!: length_dropWhile_Cons)

lemma match_command_shorter:
  assumes "match_command s = Some (m, r)"
  shows "length r < length s"
proof (cases s)
  case Nil
  with assms show ?thesis by (simp add: match_command_def)
next
  case (Cons c cs)
  have 1: "length (dropWhile is_letter cs) \<le> length cs" by (rule length_dropWhile_le)
  show ?thesis
  proof (cases "match_braces (dropWhile is_letter cs)")
    case None
    with assms Cons 1 show ?thesis
      by (auto simp: match_command_def split: if_splits)
  next
    case (Some p)
    obtain g after where p: "p = (g, after)" by (cases p)
    from Some p have "length after < length (dropWhile is_letter cs)"
      by (auto dest: match_braces_shorter)
    with assms Cons 1 Some p show ?thesis
      by (auto simp: match_command_def split: if_splits)
  qed
qed

text \<open>\<open>re.findall\<close> of that pattern: the matches from left to right, not overlapping.\<close>

function findall_commands :: "string \<Rightarrow> string list" where
  "findall_commands s =
     (case s of
        [] \<Rightarrow> []
      | c # cs \<Rightarrow>
          (case match_command s of
             Some (m, r) \<Rightarrow> m # findall_commands r
           | None \<Rightarrow> findall_commands cs))"
  by pat_completeness auto
termination
  by (relation "measure length") (auto dest: match_command_shorter)

declare findall_commands.simps [simp del]

text \<open>
  One match of \<open>(``[^`]*``|`[^`]*`)\<close> at the head of a string. The first alternative is
  tried first; a run \<open>[^`]*\<close> always extends to the next backtick.
\<close>

definition not_tick :: "char \<Rightarrow> bool" where
  "not_tick x = (x \<noteq> CHR ''`'')"

definition match_math :: "string \<Rightarrow> (string \<times> string) option" where
  "match_math s =
     (if startswith s ''``'' \<and> startswith (dropWhile not_tick (drop 2 s)) ''``''
      then Some (''``'' @ takeWhile not_tick (drop 2 s) @ ''``'',
                 drop 2 (dropWhile not_tick (drop 2 s)))
      else if startswith s ''`'' \<and> startswith (dropWhile not_tick (drop 1 s)) ''`''
      then Some (''`'' @ takeWhile not_tick (drop 1 s) @ ''`'',
                 drop 1 (dropWhile not_tick (drop 1 s)))
      else None)"

lemma match_math_shorter:
  assumes "match_math s = Some (m, r)"
  shows "length r < length s"
proof -
  have d: "length (dropWhile not_tick xs) \<le> length xs" for xs
    by (rule length_dropWhile_le)
  have s: "startswith xs (p # ps) \<Longrightarrow> xs \<noteq> []" for xs p ps
    by (cases xs) auto
  from assms show ?thesis
    using d[of "drop 2 s"] d[of "drop 1 s"]
    by (cases s) (auto simp: match_math_def split: if_splits dest: s)
qed

text \<open>
  \<open>re.split\<close> of that pattern, which has one capturing group: the texts between the
  matches alternate with the matches themselves. \<open>cur\<close> is the text since the last
  match, reversed.
\<close>

function split_math :: "string \<Rightarrow> string \<Rightarrow> string list" where
  "split_math cur s =
     (case s of
        [] \<Rightarrow> [rev cur]
      | c # cs \<Rightarrow>
          (case match_math s of
             Some (m, r) \<Rightarrow> rev cur # m # split_math [] r
           | None \<Rightarrow> split_math (c # cur) cs))"
  by pat_completeness auto
termination
  by (relation "measure (\<lambda>(cur, s). length s)") (auto dest: match_math_shorter)

declare split_math.simps [simp del]

text \<open>
  The two anchored patterns of the part parser, matched against one line (a line holds
  no newline, so \<open>$\<close> is the end of the line): \<open>^\[([A-Z_]+)\]$\<close> gives the tag name,
  \<open>^([a-z_]+):\s*(.*)\<close> gives a key and a value.
\<close>

definition is_upper_us :: "char \<Rightarrow> bool" where
  "is_upper_us c = ((65 \<le> (of_char c :: nat) \<and> (of_char c :: nat) \<le> 90) \<or> c = CHR ''_'')"

definition is_lower_us :: "char \<Rightarrow> bool" where
  "is_lower_us c = ((97 \<le> (of_char c :: nat) \<and> (of_char c :: nat) \<le> 122) \<or> c = CHR ''_'')"

definition tag_match :: "string \<Rightarrow> string option" where
  "tag_match line =
     (case line of
        [] \<Rightarrow> None
      | c # cs \<Rightarrow>
          if c = CHR ''['' \<and> cs \<noteq> [] \<and> last cs = CHR '']'' \<and> butlast cs \<noteq> []
             \<and> list_all is_upper_us (butlast cs)
          then Some (butlast cs) else None)"

definition meta_match :: "string \<Rightarrow> (string \<times> string) option" where
  "meta_match line =
     (if takeWhile is_lower_us line \<noteq> [] \<and> startswith (dropWhile is_lower_us line) '':''
      then Some (takeWhile is_lower_us line,
                 dropWhile isspace (drop 1 (dropWhile is_lower_us line)))
      else None)"

text \<open>\<open>str.lower\<close> on a tag name, whose characters are \<open>A\<close> to \<open>Z\<close> and \<open>_\<close>.\<close>

definition lower_char :: "char \<Rightarrow> char" where
  "lower_char c =
     (if 65 \<le> (of_char c :: nat) \<and> (of_char c :: nat) \<le> 90 then char_of (of_char c + 32 :: nat)
      else c)"

definition lower :: "string \<Rightarrow> string" where
  "lower s = map lower_char s"

section \<open>The data model\<close>

datatype QuestionType = MCQ | MRQ | STRING | OQ | GAP_TEXT | MATCHING | INPUT_BOX | FRQ | FRQ_AI

fun QuestionType_value :: "QuestionType \<Rightarrow> string" where
  "QuestionType_value MCQ = ''mcq''"
| "QuestionType_value MRQ = ''mrq''"
| "QuestionType_value STRING = ''string''"
| "QuestionType_value OQ = ''oq''"
| "QuestionType_value GAP_TEXT = ''gapText''"
| "QuestionType_value MATCHING = ''matching''"
| "QuestionType_value INPUT_BOX = ''input_box''"
| "QuestionType_value FRQ = ''frq''"
| "QuestionType_value FRQ_AI = ''frq_ai''"

text \<open>\<open>QuestionType(v)\<close>: the member with that value, \<open>None\<close> for \<open>ValueError\<close>.\<close>

definition QuestionType_of :: "string \<Rightarrow> QuestionType option" where
  "QuestionType_of v =
     find (\<lambda>t. QuestionType_value t = v)
       [MCQ, MRQ, STRING, OQ, GAP_TEXT, MATCHING, INPUT_BOX, FRQ, FRQ_AI]"

datatype Language = ARABIC | ENGLISH

fun Language_value :: "Language \<Rightarrow> string" where
  "Language_value ARABIC = ''ar''"
| "Language_value ENGLISH = ''en''"

definition Language_of :: "string \<Rightarrow> Language option" where
  "Language_of v = find (\<lambda>l. Language_value l = v) [ARABIC, ENGLISH]"

record ProcessingStats =
  total_questions :: nat
  successful :: nat
  failed :: nat
  generated_files :: "string list"

text \<open>
  The exceptions of the program: a \<open>ValueError\<close> raised with a message, the \<open>ValueError\<close>
  of \<open>int\<close> on a string that is no integer literal (with that string), the \<open>ValueError\<close>
  of an enumeration on a string that is the value of no member (with that string), a
  \<open>KeyError\<close> (with the key) and the \<open>ZeroDivisionError\<close> of \<open>/\<close>.
\<close>

datatype error =
    ValueError string
  | InvalidLiteral string
  | InvalidMember string
  | KeyError string
  | ZeroDivisionError

text \<open>
  A choice of a part. The keys \<open>group\<close> and \<open>correct_order\<close> are absent (\<open>None\<close>) where
  a builder does not write them; \<open>values\<close> is always the empty list and \<open>unit\<close> always
  null.
\<close>

record Choice =
  choice_type :: string
  html_content :: string
  choice_group :: "nat option"
  correct_order :: "nat option"
  choice_values :: "string list"
  choice_unit :: "string option"
  index :: nat
  fixed_order :: nat
  last_order :: bool

text \<open>
  The three shapes of \<open>answer\<close>: a list of rendered texts (string), one rendered text
  (frq) and the object of the input box (value and unit, with the fixed constraint
  \<open>{"type": "integer"}\<close>).
\<close>

datatype Answer =
    AnswerList "string list"
  | AnswerHtml string
  | AnswerBox string "string option"

text \<open>
  A part. \<open>choices = None\<close> is JSON null; the other optional fields are \<open>None\<close> when the
  key is absent. \<open>ai\<close> holds the \<open>ai_template_id\<close> of the \<open>ai\<close> object.
\<close>

record Part =
  part_n :: nat
  part_type :: string
  subtype :: "string option"
  standalone :: bool
  stem :: "string option"
  choices :: "Choice list option"
  answer :: "Answer option"
  ai :: "string option"
  direction :: "string option"
  gap_text_keys :: "(string \<times> nat) list option"

record Metadata =
  md_id :: int
  mapped_id :: int
  category :: string
  language :: string
  country :: string
  dialect :: "string list"
  source_id_value :: int
  description :: string
  has_example :: bool
  instances_count :: nat
  publication_date :: string
  parts_count :: nat

record QuestionRecord =
  parts :: "Part list"
  statement :: "string option"
  instance_number :: nat
  metadata :: Metadata

section \<open>Glyph substitution\<close>

definition cmd :: "string \<Rightarrow> string" where
  "cmd name = CHR 0x5C # name"

text \<open>\<open>ARABIC_LATEX_MAP\<close>, in the order of the dictionary literal.\<close>

definition ARABIC_LATEX_MAP :: "(string \<times> string) list" where
  "ARABIC_LATEX_MAP =
     [(''F(x)'', cmd ''dotlessqaft ('' @ cmd ''seen)''),
      ([CHR ''Q'', CHR 0x27], cmd ''dotlessnoont '' @ cmd ''prime''),
      (''N'', cmd ''tah''), (''Z'', cmd ''sadt''), (''Q'', cmd ''dotlessnoont''),
      (''X'', cmd ''seent''), (''Y'', cmd ''sadt''), (''A'', cmd ''alt{'' @ cmd ''alef}''),
      (''B'', cmd ''beh''), (''C'', cmd ''jeemi''), (''D'', cmd ''dal''), (''E'', cmd ''hehi''),
      (''F'', cmd ''waw''), (''M'', cmd ''meem''), (''K'', cmd ''kaf''), (''L'', cmd ''lam''),
      (''O'', cmd ''waw''), (''R'', cmd ''haht''),
      (''x'', cmd ''seen''), (''y'', cmd ''sad''), (''z'', cmd ''ain''), (''n'', cmd ''noon''),
      (''s'', cmd ''feh''), (''r'', cmd ''aint'')]"

text \<open>
  \<open>sorted(keys, key=len, reverse=True)\<close>: a stable sort, the longest keys first and keys
  of one length in the order of the dictionary.
\<close>

definition sorted_keys :: "string list" where
  "sorted_keys = sort_key (\<lambda>k. - int (length k)) (map fst ARABIC_LATEX_MAP)"

text \<open>\<open>ARABIC_LATEX_MAP[key]\<close>, read only at keys of the map.\<close>

definition glyph :: "string \<Rightarrow> string" where
  "glyph key = (case map_of ARABIC_LATEX_MAP key of Some v \<Rightarrow> v | None \<Rightarrow> [])"

definition placeholder :: "nat \<Rightarrow> string" where
  "placeholder i = ''__LATEX_CMD_'' @ str_nat i @ ''__''"

fun protect :: "nat \<Rightarrow> string list \<Rightarrow> string \<Rightarrow> string" where
  "protect i [] protected_equation = protected_equation"
| "protect i (command # rest) protected_equation =
     protect (Suc i) rest (replace1 protected_equation command (placeholder i))"

fun restore :: "nat \<Rightarrow> string list \<Rightarrow> string \<Rightarrow> string" where
  "restore i [] result = result"
| "restore i (command # rest) result =
     restore (Suc i) rest (replace1 result (placeholder i) command)"

definition substitute_key :: "string \<Rightarrow> string \<Rightarrow> string" where
  "substitute_key key processed_part =
     (if contains processed_part key then replace processed_part key (glyph key)
      else processed_part)"

definition process_equation_part :: "string \<Rightarrow> string" where
  "process_equation_part part =
     (if part \<in> set sorted_keys then glyph part
      else fold substitute_key sorted_keys part)"

text \<open>
  \<open>convert_to_arabic_latex\<close>. The argument is a string, so the first test is the test for
  the empty string; the operations of the \<open>try\<close> block raise nothing on strings, so the
  \<open>except\<close> branch is not reached.
\<close>

definition convert_to_arabic_latex :: "string \<Rightarrow> string" where
  "convert_to_arabic_latex equation =
     (if equation = [] then []
      else
        let latex_commands = findall_commands equation;
            protected_equation = protect 0 latex_commands equation;
            processed_parts = map process_equation_part (py_split protected_equation '' '');
            result = join '' '' processed_parts
        in restore 0 latex_commands result)"

section \<open>Rendering\<close>

definition escape_attr :: "string \<Rightarrow> string" where
  "escape_attr v =
     replace (replace (replace (replace (replace v ''&'' ''&amp;'') ''<'' ''&lt;'') ''>'' ''&gt;'')
       [CHR 0x22] ''&quot;'') [CHR 0x27] ''&#39;''"

definition create_math_field :: "string \<Rightarrow> Language \<Rightarrow> bool \<Rightarrow> string" where
  "create_math_field equation lang force_en =
     (if equation = [] then []
      else
        let is_arabic = (lang = ARABIC \<and> \<not> force_en);
            latex_value = (if is_arabic then convert_to_arabic_latex equation else equation);
            locale_attrs = (if is_arabic then '' locale=\"ar\" lang=\"ar\"'' else '' locale=\"en\"'');
            processed_value = escape_attr latex_value
        in ''<span class=\"LexicalTheme__math--inline\" data-node-type=\"math\" ''
           @ ''data-node-variation=\"inline\">''
           @ ''<math-field default-mode=\"inline-math\" read-only=\"true\" ''
           @ ''value=\"'' @ processed_value @ ''\"'' @ locale_attrs @ ''></math-field></span>'')"

definition blank_html :: string where
  "blank_html = ''<span data-node-type=\"blank-line\" data-node-variation=\"space\">&nbsp;</span>''"

definition stem_html_gap :: string where
  "stem_html_gap = ''<span data-node-type=\"blank-line\" data-node-variation=\"gap\">&nbsp;</span>''"

definition escape_text :: "string \<Rightarrow> string" where
  "escape_text part = replace (replace (replace part ''&'' ''&amp;'') ''<'' ''&lt;'') ''>'' ''&gt;''"

text \<open>The body of the loop over the segments: what one segment adds to the output.\<close>

definition render_segment :: "Language \<Rightarrow> string \<Rightarrow> string" where
  "render_segment lang part =
     (if part = [] then []
      else if startswith part ''``'' \<and> endswith part ''``''
      then (let math_content = strip (take (length part - 4) (drop 2 part))
            in if math_content \<noteq> [] then create_math_field math_content lang True else [])
      else if startswith part ''`'' \<and> endswith part ''`''
      then (let math_content = strip (take (length part - 2) (drop 1 part))
            in if math_content \<noteq> [] then create_math_field math_content lang False else [])
      else ''<span style=\"white-space: pre-wrap;\">'' @ escape_text part @ ''</span>'')"

definition process_text_for_html :: "string \<Rightarrow> Language \<Rightarrow> string" where
  "process_text_for_html text lang =
     (if text = [] then []
      else
        let direction = (if lang = ARABIC then '' dir=\"rtl\"'' else []);
            processed_text = replace text ''_____'' blank_html;
            segments = split_math [] processed_text;
            final_html_content = concat (map (render_segment lang) segments)
        in ''<p class=\"LexicalTheme__paragraph\"'' @ direction @ ''>'' @ final_html_content
           @ ''</p>'')"

section \<open>Metadata\<close>

text \<open>
  A \<open>Dict[str, str]\<close> is a map. In the definitions below \<open>md\<close> is the dictionary that the
  source calls \<open>metadata\<close>, and \<open>lang\<close> is its \<open>language\<close>.
\<close>

type_synonym dict = "string \<rightharpoonup> string"

definition missing_field :: "dict \<Rightarrow> string \<Rightarrow> string list" where
  "missing_field md field =
     (if md field = None \<or> \<not> truthy (md field)
      then [''Missing required field: '' @ field] else [])"

definition invalid_language :: "dict \<Rightarrow> string list" where
  "invalid_language md =
     (case md ''language'' of
        None \<Rightarrow> []
      | Some v \<Rightarrow> (case Language_of v of None \<Rightarrow> [''Invalid language: '' @ v] | Some l \<Rightarrow> []))"

definition non_numeric_id :: "dict \<Rightarrow> string list" where
  "non_numeric_id md =
     (case md ''id'' of
        None \<Rightarrow> []
      | Some v \<Rightarrow> (case py_int v of None \<Rightarrow> [''ID must be numeric: '' @ v] | Some i \<Rightarrow> []))"

text \<open>\<open>validate_metadata\<close>: the three checks append to \<open>errors\<close> in this order.\<close>

definition validate_metadata :: "dict \<Rightarrow> bool \<times> string list" where
  "validate_metadata md =
     (let errors = concat (map (missing_field md) [''id'', ''language''])
                   @ invalid_language md @ non_numeric_id md
      in (length errors = 0, errors))"

definition dialect_map :: "Language \<Rightarrow> string list" where
  "dialect_map l = (case l of ARABIC \<Rightarrow> [''modern_standard''] | ENGLISH \<Rightarrow> [''american'', ''british''])"

text \<open>\<open>metadata.get(key, default)\<close>.\<close>

definition get_default :: "dict \<Rightarrow> string \<Rightarrow> string \<Rightarrow> string" where
  "get_default d key dflt = (case d key of None \<Rightarrow> dflt | Some v \<Rightarrow> v)"

text \<open>\<open>Language(metadata['language'])\<close> and \<open>int(metadata[key])\<close>, with their exceptions.\<close>

definition language_of_metadata :: "dict \<Rightarrow> error + Language" where
  "language_of_metadata md =
     (case md ''language'' of
        None \<Rightarrow> Inl (KeyError ''language'')
      | Some v \<Rightarrow>
          (case Language_of v of
             None \<Rightarrow> Inl (InvalidMember v)
           | Some l \<Rightarrow> Inr l))"

definition int_of_metadata :: "dict \<Rightarrow> string \<Rightarrow> error + int" where
  "int_of_metadata md key =
     (case md key of
        None \<Rightarrow> Inl (KeyError key)
      | Some v \<Rightarrow> (case py_int v of None \<Rightarrow> Inl (InvalidLiteral v) | Some i \<Rightarrow> Inr i))"

text \<open>
  \<open>create_base_json_structure\<close>. \<open>now\<close> is the result of \<open>get_current_timestamp\<close>, the one
  reading of the clock.
\<close>

definition create_base_json_structure :: "dict \<Rightarrow> string \<Rightarrow> error + QuestionRecord" where
  "create_base_json_structure md now =
     (case language_of_metadata md of
        Inl e \<Rightarrow> Inl e
      | Inr lang \<Rightarrow>
          (case int_of_metadata md ''id'' of
             Inl e \<Rightarrow> Inl e
           | Inr question_id \<Rightarrow>
               (case (if lang = ARABIC \<and> md ''mapped_id'' \<noteq> None
                      then (case int_of_metadata md ''mapped_id'' of
                              Inl e \<Rightarrow> Inl e
                            | Inr m \<Rightarrow> Inr (m, question_id))
                      else Inr (question_id, question_id)) of
                  Inl e \<Rightarrow> Inl e
                | Inr (qid, mid) \<Rightarrow>
                    Inr \<lparr>parts = [], statement = None, instance_number = 1,
                         metadata =
                           \<lparr>md_id = qid, mapped_id = mid,
                            category = get_default md ''category'' ''exam'',
                            language = Language_value lang,
                            country = get_default md ''country'' ''eg'',
                            dialect = dialect_map lang,
                            source_id_value = 182136230818,
                            description = get_default md ''description'' [],
                            has_example = False, instances_count = 1,
                            publication_date = now, parts_count = 0\<rparr>\<rparr>)))"

section \<open>The part builders\<close>

text \<open>
  Each builder returns the values of the dictionary it builds; the constant entries of
  that dictionary are written where \<open>process_question_part\<close> merges it into the part.
\<close>

definition mcq_choice :: "Language \<Rightarrow> nat \<times> string \<Rightarrow> Choice" where
  "mcq_choice lang jl =
     (case jl of (j, choice_line) \<Rightarrow>
        let is_key = startswith choice_line ''*'';
            txt = (if is_key then strip (drop 1 choice_line) else strip choice_line)
        in \<lparr>choice_type = (if is_key then ''key'' else ''distractor''),
            html_content = process_text_for_html txt lang,
            choice_group = None, correct_order = None,
            choice_values = [], choice_unit = None,
            index = j, fixed_order = j + 1, last_order = False\<rparr>)"

definition process_mcq_mrq_part :: "dict \<Rightarrow> Language \<Rightarrow> error + Choice list" where
  "process_mcq_mrq_part content lang =
     (case content ''choices'' of
        None \<Rightarrow> Inl (ValueError ''MCQ/MRQ questions must have choices'')
      | Some c \<Rightarrow> Inr (map (mcq_choice lang) (enumerate 0 (stripped_lines c))))"

text \<open>The result is \<open>answer\<close> (a list of one text) and the optional \<open>ai_template_id\<close>.\<close>

definition process_string_part ::
  "dict \<Rightarrow> dict \<Rightarrow> dict \<Rightarrow> Language \<Rightarrow> error + (string list \<times> string option)" where
  "process_string_part content md part_metadata lang =
     (case content ''answer'' of
        None \<Rightarrow> Inl (ValueError ''String questions must have an answer'')
      | Some a \<Rightarrow>
          let ai_id = py_or (part_metadata ''ai_template_id'') (md ''ai_template_id'')
          in Inr ([process_text_for_html (strip a) lang], if truthy ai_id then ai_id else None))"

definition oq_choice :: "Language \<Rightarrow> nat \<times> string \<Rightarrow> Choice" where
  "oq_choice lang jl =
     (case jl of (j, line) \<Rightarrow>
        \<lparr>choice_type = ''distractor'',
         html_content = process_text_for_html line lang,
         choice_group = None, correct_order = Some (j + 1),
         choice_values = [], choice_unit = None,
         index = j, fixed_order = j + 1, last_order = False\<rparr>)"

definition process_oq_part :: "dict \<Rightarrow> Language \<Rightarrow> error + Choice list" where
  "process_oq_part content lang =
     (case content ''choices'' of
        None \<Rightarrow> Inl (ValueError ''OQ questions must have choices'')
      | Some c \<Rightarrow> Inr (map (oq_choice lang) (enumerate 0 (stripped_lines c))))"

text \<open>The result is \<open>gap_text_keys\<close> (value and \<open>correct_order\<close>) and the rendered stem.\<close>

definition process_gap_text_part ::
  "dict \<Rightarrow> Language \<Rightarrow> error + ((string \<times> nat) list \<times> string)" where
  "process_gap_text_part content lang =
     (case (content ''gaps'', content ''stem'') of
        (Some g, Some st) \<Rightarrow>
          let gap_text_keys = map (\<lambda>(j, line). (line, j + 1)) (enumerate 0 (stripped_lines g));
              processed_stem = replace (strip st) ''[BLANK]'' stem_html_gap
          in Inr (gap_text_keys, process_text_for_html processed_stem lang)
      | _ \<Rightarrow> Inl (ValueError ''Gap text questions must have gaps and stem''))"

text \<open>
  The two choices of one line of \<open>matching_pairs\<close>; \<open>n\<close> is \<open>len(pair_lines)\<close>. The line
  is split at its first \<open>|\<close>.
\<close>

definition matching_pair :: "Language \<Rightarrow> nat \<Rightarrow> nat \<times> string \<Rightarrow> error + Choice list" where
  "matching_pair lang n jl =
     (case jl of (j, line) \<Rightarrow>
        (case partition_str line ''|'' of
           None \<Rightarrow> Inl (ValueError (''Matching pair must contain '' @ [CHR 0x27] @ ''|'' @ [CHR 0x27]
                                   @ '' separator: '' @ line))
         | Some (group1_text, group2_text) \<Rightarrow>
             Inr [\<lparr>choice_type = ''distractor'',
                   html_content = process_text_for_html (strip group1_text) lang,
                   choice_group = Some 1, correct_order = Some (j + 1),
                   choice_values = [], choice_unit = None,
                   index = j, fixed_order = j + 1, last_order = False\<rparr>,
                  \<lparr>choice_type = ''distractor'',
                   html_content = process_text_for_html (strip group2_text) lang,
                   choice_group = Some 2, correct_order = Some (j + 1),
                   choice_values = [], choice_unit = None,
                   index = j + n, fixed_order = j + 1 + n, last_order = False\<rparr>]))"

text \<open>
  A loop that appends what each element gives and stops at the first exception.
\<close>

fun collect :: "('a \<Rightarrow> error + 'b list) \<Rightarrow> 'a list \<Rightarrow> error + 'b list" where
  "collect f [] = Inr []"
| "collect f (x # xs) =
     (case f x of
        Inl e \<Rightarrow> Inl e
      | Inr ys \<Rightarrow> (case collect f xs of Inl e \<Rightarrow> Inl e | Inr zs \<Rightarrow> Inr (ys @ zs)))"

definition process_matching_part :: "dict \<Rightarrow> Language \<Rightarrow> error + Choice list" where
  "process_matching_part content lang =
     (case content ''matching_pairs'' of
        None \<Rightarrow> Inl (ValueError ''Matching questions must have matching_pairs'')
      | Some m \<Rightarrow>
          let pair_lines = stripped_lines m
          in collect (matching_pair lang (length pair_lines)) (enumerate 0 pair_lines))"

text \<open>
  What the two choices \<open>a\<close> and \<open>b\<close> of source line number \<open>j\<close> of \<open>n\<close> lines hold: the
  texts before and after the first \<open>|\<close> of the line, the groups 1 and 2, and the orders.
\<close>

definition pair_choices :: "Language \<Rightarrow> nat \<Rightarrow> nat \<Rightarrow> string \<Rightarrow> Choice \<Rightarrow> Choice \<Rightarrow> bool" where
  "pair_choices lang n j line a b =
     (\<exists>g1 g2. partition_str line ''|'' = Some (g1, g2)
        \<and> choice_type a = ''distractor''
        \<and> html_content a = process_text_for_html (strip g1) lang
        \<and> choice_group a = Some 1 \<and> index a = j \<and> fixed_order a = j + 1
        \<and> correct_order a = Some (j + 1)
        \<and> choice_type b = ''distractor''
        \<and> html_content b = process_text_for_html (strip g2) lang
        \<and> choice_group b = Some 2 \<and> index b = j + n \<and> fixed_order b = j + 1 + n
        \<and> correct_order b = Some (j + 1))"

text \<open>
  \<open>split\<close> returns at least one string; the unit is \<open>answer_parts[1]\<close> when there is one.
\<close>

definition process_input_box_part :: "dict \<Rightarrow> error + Answer" where
  "process_input_box_part content =
     (case content ''answer'' of
        None \<Rightarrow> Inl (ValueError ''Input box questions must have an answer'')
      | Some a \<Rightarrow>
          (case py_split (strip a) ''|'' of
             [] \<Rightarrow> Inr (AnswerBox [] None)
           | [v] \<Rightarrow> Inr (AnswerBox (strip v) None)
           | v # u # rest \<Rightarrow> Inr (AnswerBox (strip v) (Some (strip u)))))"

text \<open>The result is \<open>answer\<close> (one text) and the \<open>ai_template_id\<close> of \<open>frq_ai\<close>.\<close>

definition process_frq_part ::
  "dict \<Rightarrow> dict \<Rightarrow> dict \<Rightarrow> Language \<Rightarrow> QuestionType \<Rightarrow> error + (string \<times> string option)" where
  "process_frq_part content md part_metadata lang question_type =
     (case content ''answer'' of
        None \<Rightarrow> Inl (ValueError ''FRQ questions must have an answer'')
      | Some a \<Rightarrow>
          let answer_html = process_text_for_html (strip a) lang
          in if question_type = FRQ_AI then
               (let ai_id = py_or (part_metadata ''ai_template_id'') (md ''ai_template_id'')
                in if \<not> truthy ai_id
                   then Inl (ValueError ([CHR 0x27] @ ''ai_template_id'' @ [CHR 0x27]
                                         @ '' is required for frq_ai type''))
                   else Inr (answer_html, ai_id))
             else Inr (answer_html, None))"

section \<open>One part\<close>

text \<open>
  The state of the loop over the lines of a part block: \<open>part_metadata\<close>, \<open>content\<close> and
  \<open>current_tag\<close>. A tag line always stores the key before a later line appends to it.
\<close>

definition parse_part_line ::
  "dict \<times> dict \<times> string option \<Rightarrow> string \<Rightarrow> dict \<times> dict \<times> string option" where
  "parse_part_line st line =
     (case st of (part_metadata, content, current_tag) \<Rightarrow>
        (case tag_match line of
           Some name \<Rightarrow> (part_metadata, content(lower name \<mapsto> []), Some (lower name))
         | None \<Rightarrow>
             (case (meta_match line, current_tag) of
                (Some (k, v), None) \<Rightarrow> (part_metadata(k \<mapsto> v), content, current_tag)
              | (_, Some t) \<Rightarrow>
                  if strip line \<noteq> []
                  then (part_metadata, content(t \<mapsto> get_default content t [] @ line @ [CHR 0x0A]),
                        current_tag)
                  else st
              | (None, None) \<Rightarrow> st)))"

definition parse_part_block :: "string \<Rightarrow> dict \<times> dict" where
  "parse_part_block part_block =
     (case foldl parse_part_line (Map.empty, Map.empty, None)
             (py_split (strip part_block) [CHR 0x0A]) of
        (part_metadata, content, current_tag) \<Rightarrow> (part_metadata, map_option strip \<circ> content))"

text \<open>The type of a part: the part's own \<open>type\<close>, else the question's.\<close>

definition resolve_type :: "dict \<Rightarrow> dict \<Rightarrow> error + QuestionType" where
  "resolve_type part_metadata md =
     (let part_type_str = py_or (part_metadata ''type'') (md ''type'')
      in case part_type_str of
           None \<Rightarrow> Inl (ValueError ''Question type not specified'')
         | Some v \<Rightarrow>
             if v = [] then Inl (ValueError ''Question type not specified'')
             else (case QuestionType_of v of
                     None \<Rightarrow> Inl (ValueError (''Unsupported question type: '' @ v))
                   | Some t \<Rightarrow> Inr t))"

text \<open>
  The dispatch on the type, on the part that already holds \<open>n\<close>, \<open>type\<close> and the stem.
\<close>

definition build_part ::
  "QuestionType \<Rightarrow> dict \<Rightarrow> dict \<Rightarrow> dict \<Rightarrow> Language \<Rightarrow> Part \<Rightarrow> error + Part" where
  "build_part question_type content md part_metadata lang part =
     (if question_type = MCQ \<or> question_type = MRQ then
        (case process_mcq_mrq_part content lang of
           Inl e \<Rightarrow> Inl e
         | Inr cs \<Rightarrow> Inr (part\<lparr>choices := Some cs\<rparr>))
      else if question_type = STRING then
        (case process_string_part content md part_metadata lang of
           Inl e \<Rightarrow> Inl e
         | Inr (a, ai_id) \<Rightarrow>
             Inr (part\<lparr>choices := None, answer := Some (AnswerList a), ai := ai_id\<rparr>))
      else if question_type = OQ then
        (case process_oq_part content lang of
           Inl e \<Rightarrow> Inl e
         | Inr cs \<Rightarrow> Inr (part\<lparr>direction := Some ''vertical'', choices := Some cs\<rparr>))
      else if question_type = GAP_TEXT then
        (case process_gap_text_part content lang of
           Inl e \<Rightarrow> Inl e
         | Inr (keys, st) \<Rightarrow>
             Inr (part\<lparr>stem := Some st, choices := Some [], gap_text_keys := Some keys\<rparr>))
      else if question_type = MATCHING then
        (case process_matching_part content lang of
           Inl e \<Rightarrow> Inl e
         | Inr cs \<Rightarrow> Inr (part\<lparr>choices := Some cs\<rparr>))
      else if question_type = INPUT_BOX then
        (case process_input_box_part content of
           Inl e \<Rightarrow> Inl e
         | Inr a \<Rightarrow> Inr (part\<lparr>choices := Some [], answer := Some a\<rparr>))
      else
        (case process_frq_part content md part_metadata lang question_type of
           Inl e \<Rightarrow> Inl e
         | Inr (a, ai_id) \<Rightarrow>
             Inr (part\<lparr>choices := Some [], answer := Some (AnswerHtml a), ai := ai_id\<rparr>)))"

text \<open>
  \<open>process_question_part\<close>. Its \<open>except\<close> clause logs the exception and raises it again.
\<close>

definition process_question_part :: "string \<Rightarrow> nat \<Rightarrow> dict \<Rightarrow> Language \<Rightarrow> error + Part" where
  "process_question_part part_block part_counter md lang =
     (case parse_part_block part_block of (part_metadata, content) \<Rightarrow>
        (case resolve_type part_metadata md of
           Inl e \<Rightarrow> Inl e
         | Inr question_type \<Rightarrow>
             build_part question_type content md part_metadata lang
               \<lparr>part_n = part_counter, part_type = QuestionType_value question_type,
                subtype = None, standalone = False,
                stem = map_option (\<lambda>st. process_text_for_html st lang) (content ''stem''),
                choices = None, answer = None, ai = None, direction = None,
                gap_text_keys = None\<rparr>))"

section \<open>One question\<close>

text \<open>
  The loop that reads the metadata lines: it stops at the first line that starts with
  \<open>[\<close> and returns its index; when no line does, \<open>metadata_end_index\<close> keeps its initial
  value 0.
\<close>

fun parse_metadata :: "nat \<Rightarrow> string list \<Rightarrow> dict \<Rightarrow> dict \<times> nat" where
  "parse_metadata j [] md = (md, 0)"
| "parse_metadata j (line # rest) md =
     (if startswith line ''['' then (md, j)
      else (case partition_str line '':'' of
              Some (key, v) \<Rightarrow> parse_metadata (Suc j) rest (md(strip key \<mapsto> strip v))
            | None \<Rightarrow> parse_metadata (Suc j) rest md))"

definition block_lines :: "string \<Rightarrow> string list" where
  "block_lines block = map rstrip (py_split (strip block) [CHR 0x0A])"

definition block_metadata :: "string \<Rightarrow> dict" where
  "block_metadata block = fst (parse_metadata 0 (block_lines block) Map.empty)"

definition block_content :: "string \<Rightarrow> string" where
  "block_content block =
     join [CHR 0x0A] (drop (snd (parse_metadata 0 (block_lines block) Map.empty)) (block_lines block))"

text \<open>
  The statement and the part blocks of \<open>content_str\<close>. The test of the first branch says
  that \<open>[PART]\<close> occurs, so the split at its first occurrence gives two strings.
\<close>

definition split_content :: "string \<Rightarrow> Language \<Rightarrow> string option \<times> string list" where
  "split_content content_str lang =
     (if contains content_str ''[STATEMENT]'' \<and> contains content_str ''[PART]'' then
        (case partition_str content_str ''[PART]'' of
           None \<Rightarrow> (None, [])
         | Some (statement_content, parts_str) \<Rightarrow>
             let statement_text = strip (replace statement_content ''[STATEMENT]'' []);
                 part_blocks_raw = py_split (''[PART]'' @ parts_str) ''[PART]''
             in (if statement_text \<noteq> [] then Some (process_text_for_html statement_text lang)
                 else None,
                 map strip (filter (\<lambda>p. strip p \<noteq> []) part_blocks_raw)))
      else (None, if strip content_str \<noteq> [] then [content_str] else []))"


text \<open>
  The loop over \<open>enumerate(part_blocks, 1)\<close>; \<open>acc\<close> is \<open>final_json['parts']\<close>. A part that
  \<open>process_question_part\<close> returns is a dictionary with keys, so it is always appended.
\<close>

fun process_parts :: "dict \<Rightarrow> Language \<Rightarrow> nat \<Rightarrow> string list \<Rightarrow> Part list \<Rightarrow> error + Part list" where
  "process_parts md lang part_counter [] acc = Inr acc"
| "process_parts md lang part_counter (part_block # rest) acc =
     (if strip part_block = [] then process_parts md lang (Suc part_counter) rest acc
      else (case process_question_part part_block part_counter md lang of
              Inl e \<Rightarrow> Inl e
            | Inr part \<Rightarrow> process_parts md lang (Suc part_counter) rest (acc @ [part])))"

text \<open>
  \<open>process_single_question\<close>. \<open>Inr\<close> holds the name of the file and the record written
  to it; \<open>Inl\<close> holds the exception that the \<open>except\<close> clause logs before it returns
  \<open>None\<close>, and then no file is opened. \<open>now\<close> is the time read for this question. The
  question number is only logged. Writing the file is taken to succeed.
\<close>

definition process_single_question :: "string \<Rightarrow> string \<Rightarrow> error + (string \<times> QuestionRecord)" where
  "process_single_question block now =
     (let md = block_metadata block in
      case validate_metadata md of (is_valid, errors) \<Rightarrow>
        if \<not> is_valid
        then Inl (ValueError (''Metadata validation failed: '' @ join '', '' errors))
        else
          (case language_of_metadata md of
             Inl e \<Rightarrow> Inl e
           | Inr lang \<Rightarrow>
               (case create_base_json_structure md now of
                  Inl e \<Rightarrow> Inl e
                | Inr final_json \<Rightarrow>
                    (case split_content (block_content block) lang of
                       (stmt, part_blocks) \<Rightarrow>
                         (case process_parts md lang 1 part_blocks [] of
                            Inl e \<Rightarrow> Inl e
                          | Inr ps \<Rightarrow>
                              if ps = [] then Inl (ValueError ''No valid parts found in question'')
                              else
                                (case md ''id'' of
                                   None \<Rightarrow> Inl (KeyError ''id'')
                                 | Some i \<Rightarrow>
                                     Inr (i @ ''.json'',
                                          final_json
                                            \<lparr>parts := ps, statement := stmt,
                                             metadata :=
                                               (metadata final_json)\<lparr>parts_count := length ps\<rparr>\<rparr>)))))))"

section \<open>The batch\<close>

text \<open>
  The state of the batch: the statistics and the files written so far, in the order of
  writing.
\<close>

record batch =
  stats :: ProcessingStats
  written :: "(string \<times> QuestionRecord) list"

definition question_blocks :: "string \<Rightarrow> string list" where
  "question_blocks doc_content =
     map strip (filter (\<lambda>block. strip block \<noteq> []) (py_split (strip doc_content) (''---'' @ [CHR 0x0A])))"

text \<open>One turn of the loop over the blocks: \<open>if result\<close> tests the file name.\<close>

definition record_result :: "error + (string \<times> QuestionRecord) \<Rightarrow> batch \<Rightarrow> batch" where
  "record_result result b =
     (case result of
        Inl e \<Rightarrow> b\<lparr>stats := (stats b)\<lparr>failed := failed (stats b) + 1\<rparr>\<rparr>
      | Inr (file_name, r) \<Rightarrow>
          if file_name \<noteq> []
          then \<lparr>stats = (stats b)\<lparr>successful := successful (stats b) + 1,
                                  generated_files := generated_files (stats b) @ [file_name]\<rparr>,
                written = written b @ [(file_name, r)]\<rparr>
          else \<lparr>stats = (stats b)\<lparr>failed := failed (stats b) + 1\<rparr>,
                written = written b @ [(file_name, r)]\<rparr>)"

text \<open>\<open>now i\<close> is the time read while question number \<open>i\<close> is processed.\<close>

fun process_blocks :: "(nat \<Rightarrow> string) \<Rightarrow> nat \<Rightarrow> string list \<Rightarrow> batch \<Rightarrow> batch" where
  "process_blocks now i [] b = b"
| "process_blocks now i (block # rest) b =
     process_blocks now (Suc i) rest (record_result (process_single_question block (now i)) b)"

text \<open>
  \<open>process_google_doc\<close>: the statistics start from \<open>ProcessingStats()\<close> with
  \<open>total_questions\<close> set to the number of blocks. The last log line divides \<open>successful\<close>
  by \<open>total_questions\<close> before the function returns.
\<close>

definition new_batch :: "nat \<Rightarrow> batch" where
  "new_batch count =
     \<lparr>stats = \<lparr>total_questions = count, successful = 0, failed = 0, generated_files = []\<rparr>,
      written = []\<rparr>"

definition process_google_doc :: "string \<Rightarrow> (nat \<Rightarrow> string) \<Rightarrow> error + batch" where
  "process_google_doc doc_content now =
     (let blocks = question_blocks doc_content;
          b = process_blocks now 1 blocks (new_batch (length blocks))
      in if total_questions (stats b) = 0 then Inl ZeroDivisionError else Inr b)"

section \<open>Properties\<close>

subsection \<open>Lemmas\<close>

lemma Language_of_Some_iff: "Language_of v \<noteq> None \<longleftrightarrow> v = ''en'' \<or> v = ''ar''"
  by (auto simp: Language_of_def)

lemma py_int_empty: "py_int [] = None"
  by (simp add: py_int_def strip_def lstrip_def rstrip_def)

lemma validate_metadata_errors:
  "snd (validate_metadata md) = [] \<longleftrightarrow> fst (validate_metadata md)"
  by (simp add: validate_metadata_def Let_def)

lemma validate_metadata_iff_aux:
  "fst (validate_metadata md) \<longleftrightarrow>
     (\<exists>i l. md ''id'' = Some i \<and> i \<noteq> [] \<and> py_int i \<noteq> None
          \<and> md ''language'' = Some l \<and> l \<noteq> [] \<and> (l = ''en'' \<or> l = ''ar''))"
  using Language_of_Some_iff
  by (auto simp: validate_metadata_def Let_def missing_field_def invalid_language_def
        non_numeric_id_def truthy_def py_int_empty Language_of_def split: option.splits)

lemma rejected_metadata:
  assumes "\<not> fst (validate_metadata (block_metadata block))"
  shows "process_single_question block now =
           Inl (ValueError (''Metadata validation failed: ''
                            @ join '', '' (snd (validate_metadata (block_metadata block)))))"
  using assms
  by (cases "validate_metadata (block_metadata block)")
     (simp add: process_single_question_def Let_def)

lemma record_result_Inl:
  "record_result (Inl e) b = b\<lparr>stats := (stats b)\<lparr>failed := failed (stats b) + 1\<rparr>\<rparr>"
  by (simp add: record_result_def)

lemma dropWhile_id: "xs = [] \<or> \<not> P (hd xs) \<Longrightarrow> dropWhile P xs = xs"
  by (cases xs) auto

lemma dropWhile_hd: "dropWhile P xs = [] \<or> \<not> P (hd (dropWhile P xs))"
  using hd_dropWhile[of P xs] by blast

lemma rstrip_last: "rstrip s = [] \<or> \<not> isspace (last (rstrip s))"
  using dropWhile_hd[of isspace "rev s"] by (auto simp: rstrip_def last_rev)

lemma strip_ends:
  "strip s = [] \<or> (\<not> isspace (hd (strip s)) \<and> \<not> isspace (last (strip s)))"
proof (cases "strip s = []")
  case True
  then show ?thesis by simp
next
  case False
  have h: "\<not> isspace (hd (strip s))"
    using False dropWhile_hd[of isspace "rstrip s"] by (auto simp: strip_def lstrip_def)
  obtain ys where ys: "rstrip s = ys @ strip s"
    unfolding strip_def lstrip_def
    by (metis takeWhile_dropWhile_id)
  with False have "last (rstrip s) = last (strip s)" by simp
  moreover from ys False have "rstrip s \<noteq> []" by auto
  ultimately have "\<not> isspace (last (strip s))" using rstrip_last[of s] by auto
  with h show ?thesis by simp
qed

lemma strip_fixed:
  assumes "t = [] \<or> (\<not> isspace (hd t) \<and> \<not> isspace (last t))"
  shows "strip t = t"
proof (cases "t = []")
  case True
  then show ?thesis by (simp add: strip_def lstrip_def rstrip_def)
next
  case False
  with assms have h: "\<not> isspace (hd t)" and l: "\<not> isspace (last t)" by auto
  from False l have "dropWhile isspace (rev t) = rev t"
    by (intro dropWhile_id) (simp add: hd_rev)
  then have "rstrip t = t" by (simp add: rstrip_def)
  with h False show ?thesis by (simp add: strip_def lstrip_def dropWhile_id)
qed

lemma strip_strip: "strip (strip s) = strip s"
  using strip_ends[of s] by (rule strip_fixed)





lemma accepted_question:
  assumes "process_single_question block now = Inr (file_name, r)"
  obtains lang base stmt bs i where
    "fst (validate_metadata (block_metadata block))"
    "language_of_metadata (block_metadata block) = Inr lang"
    "create_base_json_structure (block_metadata block) now = Inr base"
    "split_content (block_content block) lang = (stmt, bs)"
    "process_parts (block_metadata block) lang 1 bs [] = Inr (parts r)"
    "parts r \<noteq> []"
    "block_metadata block ''id'' = Some i"
    "file_name = i @ ''.json''"
    "r = base\<lparr>parts := parts r, statement := stmt,
               metadata := (metadata base)\<lparr>parts_count := length (parts r)\<rparr>\<rparr>"
proof -
  let ?md = "block_metadata block"
  obtain v errs where v: "validate_metadata ?md = (v, errs)"
    by (cases "validate_metadata ?md")
  have valid: "v"
    using assms v by (cases v) (simp_all add: process_single_question_def Let_def)
  obtain lang where lang: "language_of_metadata ?md = Inr lang"
    using assms v valid
    by (cases "language_of_metadata ?md") (simp_all add: process_single_question_def Let_def)
  obtain base where base: "create_base_json_structure ?md now = Inr base"
    using assms v valid lang
    by (cases "create_base_json_structure ?md now")
       (simp_all add: process_single_question_def Let_def)
  obtain stmt bs where sc: "split_content (block_content block) lang = (stmt, bs)"
    by (cases "split_content (block_content block) lang")
  obtain ps where ps: "process_parts ?md lang 1 bs [] = Inr ps"
    using assms v valid lang base sc
    by (cases "process_parts ?md lang 1 bs []")
       (simp_all add: process_single_question_def Let_def)
  have ne: "ps \<noteq> []"
    using assms v valid lang base sc ps
    by (cases "ps = []") (simp_all add: process_single_question_def Let_def)
  obtain i where i: "?md ''id'' = Some i"
    using assms v valid lang base sc ps ne
    by (cases "?md ''id''") (simp_all add: process_single_question_def Let_def)
  have res: "file_name = i @ ''.json''"
    "r = base\<lparr>parts := ps, statement := stmt,
              metadata := (metadata base)\<lparr>parts_count := length ps\<rparr>\<rparr>"
    using assms v valid lang base sc ps ne i
    by (simp_all add: process_single_question_def Let_def)
  then have "parts r = ps" by simp
  with that[of lang base stmt bs i] v valid lang base sc ps ne i res show thesis
    by simp
qed


lemma Language_of_ar: "Language_of v = Some l \<Longrightarrow> (l = ARABIC) = (v = ''ar'')"
  by (auto simp: Language_of_def split: if_splits)

lemma base_ids:
  assumes "create_base_json_structure md now = Inr base"
    and "language_of_metadata md = Inr lang"
  shows "\<exists>i qi. md ''id'' = Some i \<and> py_int i = Some qi
           \<and> (if md ''language'' = Some ''ar'' \<and> md ''mapped_id'' \<noteq> None
               then (\<exists>m. md ''mapped_id'' = Some m \<and> py_int m = Some (md_id (metadata base)))
                    \<and> mapped_id (metadata base) = qi
               else md_id (metadata base) = qi \<and> mapped_id (metadata base) = qi)"
proof -
  from assms(2) obtain v where v: "md ''language'' = Some v" "Language_of v = Some lang"
    by (auto simp: language_of_metadata_def split: option.splits)
  have ar: "(lang = ARABIC) = (md ''language'' = Some ''ar'')"
    using v Language_of_ar[OF v(2)] by simp
  from assms obtain i qi where i: "md ''id'' = Some i" "py_int i = Some qi"
    by (auto simp: create_base_json_structure_def int_of_metadata_def
             split: sum.splits option.splits)
  show ?thesis
  proof (cases "lang = ARABIC \<and> md ''mapped_id'' \<noteq> None")
    case True
    with assms i show ?thesis
      using ar
      by (auto simp: create_base_json_structure_def int_of_metadata_def
               split: sum.splits option.splits)
  next
    case False
    with assms i have "md_id (metadata base) = qi \<and> mapped_id (metadata base) = qi"
      by (auto simp: create_base_json_structure_def int_of_metadata_def
               split: sum.splits option.splits if_splits)
    with False i ar show ?thesis by auto
  qed
qed




lemma startswith_append_right: "startswith s p \<Longrightarrow> startswith (s @ t) p"
  by (induction s p rule: startswith.induct) auto

lemma partition_str_prefix_free:
  assumes "sep \<noteq> []" and "partition_str s sep = Some (a, b)"
  shows "partition_str a sep = None"
  using assms(2)
proof (induction s arbitrary: a)
  case Nil
  with assms(1) show ?case by simp
next
  case (Cons c cs)
  show ?case
  proof (cases "startswith (c # cs) sep")
    case True
    with Cons.prems have "a = []" by simp
    with assms(1) show ?thesis by simp
  next
    case False
    with Cons.prems obtain a' where a': "partition_str cs sep = Some (a', b)" "a = c # a'"
      by auto
    from partition_str_decomp[OF a'(1)] have cs: "cs = a' @ sep @ b" .
    have "\<not> startswith (c # a') sep"
    proof
      assume "startswith (c # a') sep"
      then have "startswith ((c # a') @ sep @ b) sep" by (rule startswith_append_right)
      with cs False show False by simp
    qed
    with Cons.IH[OF a'(1)] a'(2) show ?thesis by simp
  qed
qed

lemma join_Cons: "join sep (x # xs) = (if xs = [] then x else x @ sep @ join sep xs)"
  by (cases xs) auto

lemma py_split_nonempty: "sep \<noteq> [] \<Longrightarrow> py_split s sep \<noteq> []"
  by (subst py_split.simps) (auto split: option.splits)

lemma join_py_split: "sep \<noteq> [] \<Longrightarrow> join sep (py_split s sep) = s"
proof (induction s sep rule: py_split.induct)
  case (1 s sep)
  show ?case
  proof (cases "partition_str s sep")
    case None
    with 1 show ?thesis by (subst py_split.simps) simp
  next
    case (Some p)
    obtain a b where p: "p = (a, b)" by (cases p)
    from 1 Some p have "join sep (py_split b sep) = b" by simp
    moreover from Some p have "s = a @ sep @ b" by (auto dest: partition_str_decomp)
    ultimately show ?thesis
      using 1(2) Some p py_split_nonempty[of sep b]
      by (subst py_split.simps) (simp add: join_Cons)
  qed
qed

lemma py_split_pieces:
  "sep \<noteq> [] \<Longrightarrow> p \<in> set (py_split s sep) \<Longrightarrow> \<not> contains p sep"
proof (induction s sep rule: py_split.induct)
  case (1 s sep)
  show ?case
  proof (cases "partition_str s sep")
    case None
    with 1(2,3) show ?thesis
      by (subst (asm) py_split.simps) (simp add: contains_def)
  next
    case (Some q)
    obtain a b where q: "q = (a, b)" by (cases q)
    from 1(2,3) Some q have "p = a \<or> p \<in> set (py_split b sep)"
      by (subst (asm) py_split.simps) simp
    then show ?thesis
    proof
      assume "p = a"
      with partition_str_prefix_free[OF 1(2)] Some q show ?thesis
        by (simp add: contains_def)
    next
      assume "p \<in> set (py_split b sep)"
      with 1 Some q show ?thesis by simp
    qed
  qed
qed








lemma missing_field_eq:
  "missing_field md f
     = (if md f = None \<or> md f = Some [] then [''Missing required field: '' @ f] else [])"
  by (cases "md f") (simp_all add: missing_field_def truthy_def)

lemma invalid_language_eq:
  "invalid_language md
     = (case md ''language'' of
          None \<Rightarrow> []
        | Some l \<Rightarrow> if l = ''en'' \<or> l = ''ar'' then [] else [''Invalid language: '' @ l])"
proof (cases "md ''language''")
  case None
  then show ?thesis by (simp add: invalid_language_def)
next
  case (Some l)
  show ?thesis
  proof (cases "Language_of l")
    case None
    with Language_of_Some_iff[of l] have "\<not> (l = ''en'' \<or> l = ''ar'')" by blast
    with None Some show ?thesis by (simp add: invalid_language_def)
  next
    case (Some a)
    with Language_of_Some_iff[of l] have "l = ''en'' \<or> l = ''ar''" by blast
    with Some \<open>md ''language'' = Some l\<close> show ?thesis by (simp add: invalid_language_def)
  qed
qed

lemma non_numeric_id_eq:
  "non_numeric_id md
     = (case md ''id'' of
          None \<Rightarrow> []
        | Some i \<Rightarrow> if py_int i = None then [''ID must be numeric: '' @ i] else [])"
  by (cases "md ''id''"; cases "py_int (the (md ''id''))") (simp_all add: non_numeric_id_def)

lemma validate_metadata_errors_eq:
  "snd (validate_metadata md)
     = missing_field md ''id'' @ missing_field md ''language''
       @ invalid_language md @ non_numeric_id md"
  by (simp add: validate_metadata_def Let_def)










lemma matching_pair_ok:
  assumes "contains line ''|''"
  shows "\<exists>a b. matching_pair lang n (j, line) = Inr [a, b] \<and> pair_choices lang n j line a b"
proof -
  from assms obtain g1 g2 where "partition_str line ''|'' = Some (g1, g2)"
    by (auto simp: contains_def)
  then show ?thesis by (simp add: matching_pair_def pair_choices_def)
qed

lemma collect_matching:
  assumes "\<forall>l \<in> set ls. contains l ''|''"
  shows "\<exists>cs. collect (matching_pair lang n) (enumerate k ls) = Inr cs
           \<and> length cs = 2 * length ls
           \<and> (\<forall>j < length ls.
                 pair_choices lang n (k + j) (ls ! j) (cs ! (2 * j)) (cs ! (2 * j + 1)))"
  using assms
proof (induction ls arbitrary: k)
  case Nil
  then show ?case by simp
next
  case (Cons l ls)
  from Cons.prems have "contains l ''|''" by simp
  from matching_pair_ok[OF this, of lang n k] obtain a b where
    ab: "matching_pair lang n (k, l) = Inr [a, b]" and p: "pair_choices lang n k l a b"
    by blast
  from Cons.prems have "\<forall>l \<in> set ls. contains l ''|''" by simp
  from Cons.IH[OF this, of "Suc k"] obtain cs where
    cs: "collect (matching_pair lang n) (enumerate (Suc k) ls) = Inr cs"
    and len: "length cs = 2 * length ls"
    and rest: "\<forall>j < length ls.
                 pair_choices lang n (Suc k + j) (ls ! j) (cs ! (2 * j)) (cs ! (2 * j + 1))"
    by blast
  have c: "collect (matching_pair lang n) (enumerate k (l # ls)) = Inr (a # b # cs)"
    using ab cs by simp
  have "pair_choices lang n (k + j) ((l # ls) ! j)
          ((a # b # cs) ! (2 * j)) ((a # b # cs) ! (2 * j + 1))"
    if "j < length (l # ls)" for j
  proof (cases j)
    case 0
    with p show ?thesis by simp
  next
    case (Suc i)
    with that have "i < length ls" by simp
    with rest have "pair_choices lang n (Suc k + i) (ls ! i) (cs ! (2 * i)) (cs ! (2 * i + 1))"
      by blast
    with Suc show ?thesis by simp
  qed
  with c len show ?case by simp
qed

subsection \<open>Numbering of the parts\<close>




subsection \<open>The choices of a matching part\<close>

text \<open>
  C4, as the code has it: for a matching part whose \<open>matching_pairs\<close> section has \<open>N\<close>
  non-blank lines that all contain \<open>|\<close>, \<open>2N\<close> choices are emitted, and the two choices of
  source line \<open>j\<close> stand next to each other at the list positions \<open>2j\<close> and \<open>2j + 1\<close>. The
  one at \<open>2j\<close> renders the text before the first \<open>|\<close> of the line, is of group 1 and has
  \<open>index = j\<close> and \<open>fixed_order = j + 1\<close>; the one at \<open>2j + 1\<close> renders the text after it, is
  of group 2 and has \<open>index = j + N\<close> and \<open>fixed_order = j + 1 + N\<close>; both have
  \<open>correct_order = j + 1\<close>.
\<close>

theorem matching_interleaved:
  assumes "content ''matching_pairs'' = Some m"
    and "\<forall>l \<in> set (stripped_lines m). contains l ''|''"
  shows "\<exists>cs. process_matching_part content lang = Inr cs
           \<and> length cs = 2 * length (stripped_lines m)
           \<and> (\<forall>j < length (stripped_lines m).
                 \<exists>g1 g2. partition_str (stripped_lines m ! j) ''|'' = Some (g1, g2)
                 \<and> choice_type (cs ! (2 * j)) = ''distractor''
                 \<and> html_content (cs ! (2 * j)) = process_text_for_html (strip g1) lang
                 \<and> choice_group (cs ! (2 * j)) = Some 1 \<and> index (cs ! (2 * j)) = j
                 \<and> fixed_order (cs ! (2 * j)) = j + 1
                 \<and> correct_order (cs ! (2 * j)) = Some (j + 1)
                 \<and> choice_type (cs ! (2 * j + 1)) = ''distractor''
                 \<and> html_content (cs ! (2 * j + 1)) = process_text_for_html (strip g2) lang
                 \<and> choice_group (cs ! (2 * j + 1)) = Some 2
                 \<and> index (cs ! (2 * j + 1)) = j + length (stripped_lines m)
                 \<and> fixed_order (cs ! (2 * j + 1)) = j + 1 + length (stripped_lines m)
                 \<and> correct_order (cs ! (2 * j + 1)) = Some (j + 1))"
  using collect_matching[OF assms(2), of lang "length (stripped_lines m)" 0] assms(1)
  unfolding pair_choices_def
  by (simp add: process_matching_part_def Let_def)

theorem matching_interleaved_witness:
  "\<exists>cs. process_matching_part [''matching_pairs'' \<mapsto> ''a|b\<newline>c|d''] ENGLISH = Inr cs
     \<and> length cs = 4
     \<and> html_content (cs ! 2) = process_text_for_html ''c'' ENGLISH
     \<and> choice_group (cs ! 2) = Some 1 \<and> index (cs ! 2) = 1 \<and> fixed_order (cs ! 2) = 2
     \<and> correct_order (cs ! 2) = Some 2
     \<and> html_content (cs ! 3) = process_text_for_html ''d'' ENGLISH
     \<and> choice_group (cs ! 3) = Some 2 \<and> index (cs ! 3) = 3 \<and> fixed_order (cs ! 3) = 4
     \<and> correct_order (cs ! 3) = Some 2"
proof -
  have l: "stripped_lines ''a|b\<newline>c|d'' = [''a|b'', ''c|d'']"
    by code_simp
  have c: "\<forall>l \<in> set (stripped_lines ''a|b\<newline>c|d''). contains l ''|''"
    unfolding l by (simp add: contains_def)
  have s: "[''matching_pairs'' \<mapsto> ''a|b\<newline>c|d''] ''matching_pairs'' = Some ''a|b\<newline>c|d''"
    by simp
  have g: "partition_str ''c|d'' ''|'' = Some (''c'', ''d'')" "strip ''c'' = ''c''"
    "strip ''d'' = ''d''"
    by code_simp+
  from matching_interleaved[where content = "[''matching_pairs'' \<mapsto> ''a|b\<newline>c|d'']"
      and m = "''a|b\<newline>c|d''" and lang = ENGLISH, OF s c]
  obtain cs where
    cs: "process_matching_part [''matching_pairs'' \<mapsto> ''a|b\<newline>c|d''] ENGLISH = Inr cs"
    "length cs = 2 * length (stripped_lines ''a|b\<newline>c|d'')"
    and all: "\<forall>j < length (stripped_lines ''a|b\<newline>c|d'').
                 \<exists>g1 g2. partition_str (stripped_lines ''a|b\<newline>c|d'' ! j) ''|'' = Some (g1, g2)
                 \<and> choice_type (cs ! (2 * j)) = ''distractor''
                 \<and> html_content (cs ! (2 * j)) = process_text_for_html (strip g1) ENGLISH
                 \<and> choice_group (cs ! (2 * j)) = Some 1 \<and> index (cs ! (2 * j)) = j
                 \<and> fixed_order (cs ! (2 * j)) = j + 1
                 \<and> correct_order (cs ! (2 * j)) = Some (j + 1)
                 \<and> choice_type (cs ! (2 * j + 1)) = ''distractor''
                 \<and> html_content (cs ! (2 * j + 1)) = process_text_for_html (strip g2) ENGLISH
                 \<and> choice_group (cs ! (2 * j + 1)) = Some 2
                 \<and> index (cs ! (2 * j + 1)) = j + length (stripped_lines ''a|b\<newline>c|d'')
                 \<and> fixed_order (cs ! (2 * j + 1)) = j + 1 + length (stripped_lines ''a|b\<newline>c|d'')
                 \<and> correct_order (cs ! (2 * j + 1)) = Some (j + 1)"
    by blast
  from all[rule_format, of 1] cs g show ?thesis
    unfolding l by auto
qed

text \<open>
  C4, as the claim states it, fails: for two lines the choice at list position 1 is of
  group 2 and has \<open>index\<close> 2, so the list positions below \<open>N\<close> are not group 1.
\<close>

theorem matching_interleaved_counterexample:
  "length (stripped_lines ''a|b\<newline>c|d'') = 2
   \<and> map_sum id (map choice_group)
       (process_matching_part [''matching_pairs'' \<mapsto> ''a|b\<newline>c|d''] ENGLISH)
     = Inr [Some 1, Some 2, Some 1, Some 2]
   \<and> map_sum id (map index)
       (process_matching_part [''matching_pairs'' \<mapsto> ''a|b\<newline>c|d''] ENGLISH)
     = Inr [0, 2, 1, 3]"
  by code_simp

subsection \<open>Isolation of a failing question\<close>



subsection \<open>The template of an AI-graded part\<close>




subsection \<open>Validation of the metadata\<close>

text \<open>
  C8: \<open>validate_metadata\<close> accepts a dictionary exactly when \<open>id\<close> is present, not empty
  and an integer literal for \<open>int\<close>, and \<open>language\<close> is present, not empty and \<open>en\<close> or
  \<open>ar\<close>. Its list of errors names the offending fields: a missing or empty \<open>id\<close>, a
  missing or empty \<open>language\<close>, a \<open>language\<close> that is neither \<open>en\<close> nor \<open>ar\<close> (with its
  value) and an \<open>id\<close> that is no integer (with its value), in this order. When it rejects
  the metadata of a block, this list is not empty, \<open>process_single_question\<close> fails with
  the message that joins it, before any part is built, and the batch counts one failure
  and writes no file.
\<close>

theorem metadata_validation:
  "(fst (validate_metadata md) \<longleftrightarrow>
      (\<exists>i l. md ''id'' = Some i \<and> i \<noteq> [] \<and> py_int i \<noteq> None
           \<and> md ''language'' = Some l \<and> l \<noteq> [] \<and> (l = ''en'' \<or> l = ''ar'')))
   \<and> snd (validate_metadata md)
       = (if md ''id'' = None \<or> md ''id'' = Some [] then [''Missing required field: id''] else [])
         @ (if md ''language'' = None \<or> md ''language'' = Some []
            then [''Missing required field: language''] else [])
         @ (case md ''language'' of
              None \<Rightarrow> []
            | Some l \<Rightarrow> if l = ''en'' \<or> l = ''ar'' then [] else [''Invalid language: '' @ l])
         @ (case md ''id'' of
              None \<Rightarrow> []
            | Some i \<Rightarrow> if py_int i = None then [''ID must be numeric: '' @ i] else [])
   \<and> (\<not> fst (validate_metadata (block_metadata block)) \<longrightarrow>
        snd (validate_metadata (block_metadata block)) \<noteq> []
        \<and> process_single_question block now =
            Inl (ValueError (''Metadata validation failed: ''
                             @ join '', '' (snd (validate_metadata (block_metadata block)))))
        \<and> record_result (process_single_question block now) b
            = b\<lparr>stats := (stats b)\<lparr>failed := failed (stats b) + 1\<rparr>\<rparr>)"
proof (intro conjI)
  show "fst (validate_metadata md) \<longleftrightarrow>
      (\<exists>i l. md ''id'' = Some i \<and> i \<noteq> [] \<and> py_int i \<noteq> None
           \<and> md ''language'' = Some l \<and> l \<noteq> [] \<and> (l = ''en'' \<or> l = ''ar''))"
    by (rule validate_metadata_iff_aux)
next
  have a: "''Missing required field: '' @ ''id'' = ''Missing required field: id''"
    "''Missing required field: '' @ ''language'' = ''Missing required field: language''"
    by simp_all
  show "snd (validate_metadata md)
       = (if md ''id'' = None \<or> md ''id'' = Some [] then [''Missing required field: id''] else [])
         @ (if md ''language'' = None \<or> md ''language'' = Some []
            then [''Missing required field: language''] else [])
         @ (case md ''language'' of
              None \<Rightarrow> []
            | Some l \<Rightarrow> if l = ''en'' \<or> l = ''ar'' then [] else [''Invalid language: '' @ l])
         @ (case md ''id'' of
              None \<Rightarrow> []
            | Some i \<Rightarrow> if py_int i = None then [''ID must be numeric: '' @ i] else [])"
    unfolding validate_metadata_errors_eq missing_field_eq a
    by (simp only: invalid_language_eq non_numeric_id_eq)
next
  show "\<not> fst (validate_metadata (block_metadata block)) \<longrightarrow>
        snd (validate_metadata (block_metadata block)) \<noteq> []
        \<and> process_single_question block now =
            Inl (ValueError (''Metadata validation failed: ''
                             @ join '', '' (snd (validate_metadata (block_metadata block)))))
        \<and> record_result (process_single_question block now) b
            = b\<lparr>stats := (stats b)\<lparr>failed := failed (stats b) + 1\<rparr>\<rparr>"
  proof
    assume n: "\<not> fst (validate_metadata (block_metadata block))"
    from n validate_metadata_errors[of "block_metadata block"]
    have 1: "snd (validate_metadata (block_metadata block)) \<noteq> []" by blast
    note 2 = rejected_metadata[OF n, of now]
    have 3: "record_result (process_single_question block now) b
            = b\<lparr>stats := (stats b)\<lparr>failed := failed (stats b) + 1\<rparr>\<rparr>"
      unfolding 2 by (rule record_result_Inl)
    from 1 2 3 show "snd (validate_metadata (block_metadata block)) \<noteq> []
        \<and> process_single_question block now =
            Inl (ValueError (''Metadata validation failed: ''
                             @ join '', '' (snd (validate_metadata (block_metadata block)))))
        \<and> record_result (process_single_question block now) b
            = b\<lparr>stats := (stats b)\<lparr>failed := failed (stats b) + 1\<rparr>\<rparr>"
      by (intro conjI)
  qed
qed

theorem metadata_validation_witness:
  "\<not> fst (validate_metadata (block_metadata ''id: x''))
   \<and> snd (validate_metadata (block_metadata ''id: x''))
     = [''Missing required field: language'', ''ID must be numeric: x'']
   \<and> process_single_question ''id: x'' ''T''
       = Inl (ValueError (''Metadata validation failed: ''
           @ ''Missing required field: language, ID must be numeric: x''))
   \<and> written (record_result (process_single_question ''id: x'' ''T'') (new_batch 1)) = []
   \<and> failed (stats (record_result (process_single_question ''id: x'' ''T'') (new_batch 1))) = 1"
proof -
  have h: "\<not> fst (validate_metadata (block_metadata ''id: x''))"
    by code_simp
  have m: "block_metadata ''id: x'' ''id'' = Some ''x''"
    "block_metadata ''id: x'' ''language'' = None" "py_int ''x'' = None"
    by code_simp+
  note main = metadata_validation[of "block_metadata ''id: x''" "''id: x''" "''T''" "new_batch 1"]
  from main have "snd (validate_metadata (block_metadata ''id: x''))
       = (if block_metadata ''id: x'' ''id'' = None \<or> block_metadata ''id: x'' ''id'' = Some []
          then [''Missing required field: id''] else [])
         @ (if block_metadata ''id: x'' ''language'' = None
               \<or> block_metadata ''id: x'' ''language'' = Some []
            then [''Missing required field: language''] else [])
         @ (case block_metadata ''id: x'' ''language'' of
              None \<Rightarrow> []
            | Some l \<Rightarrow> if l = ''en'' \<or> l = ''ar'' then [] else [''Invalid language: '' @ l])
         @ (case block_metadata ''id: x'' ''id'' of
              None \<Rightarrow> []
            | Some i \<Rightarrow> if py_int i = None then [''ID must be numeric: '' @ i] else [])"
    by (rule conjunct1[OF conjunct2])
  then have e: "snd (validate_metadata (block_metadata ''id: x''))
     = [''Missing required field: language'', ''ID must be numeric: x'']"
    by (simp add: m)
  from main h have r: "process_single_question ''id: x'' ''T'' =
            Inl (ValueError (''Metadata validation failed: ''
                             @ join '', '' (snd (validate_metadata (block_metadata ''id: x'')))))"
    "record_result (process_single_question ''id: x'' ''T'') (new_batch 1)
            = (new_batch 1)\<lparr>stats := (stats (new_batch 1))\<lparr>failed := failed (stats (new_batch 1)) + 1\<rparr>\<rparr>"
    by blast+
  from r(1) have r1: "process_single_question ''id: x'' ''T''
       = Inl (ValueError (''Metadata validation failed: ''
           @ ''Missing required field: language, ID must be numeric: x''))"
    unfolding e by simp
  have w: "written (record_result (process_single_question ''id: x'' ''T'') (new_batch 1)) = []"
    "failed (stats (record_result (process_single_question ''id: x'' ''T'') (new_batch 1))) = 1"
    unfolding r(2) by (simp_all add: new_batch_def)
  from h e r1 w show ?thesis by (intro conjI)
qed

subsection \<open>Splitting a document\<close>

text \<open>
  C9, as the code has it, for a document without carriage returns whose trimmed text does
  not end with \<open>---\<close>: the document is trimmed and cut at every occurrence, from left to
  right, of the four characters \<open>---\<close> and line feed, wherever they stand in a line.
  Joining the pieces with this separator gives the trimmed document back and no piece
  contains the separator; the blocks are the trimmed pieces that are not empty, in the
  order of the document, so every block is trimmed and not empty.
\<close>

theorem question_blocks_split:
  assumes "\<not> endswith (strip doc) ''---''" and "CHR 0x0D \<notin> set doc"
  shows
  "join (''---'' @ [CHR 0x0A]) (py_split (strip doc) (''---'' @ [CHR 0x0A])) = strip doc
   \<and> (\<forall>p \<in> set (py_split (strip doc) (''---'' @ [CHR 0x0A])).
         \<not> contains p (''---'' @ [CHR 0x0A]))
   \<and> question_blocks doc
       = filter (\<lambda>b. b \<noteq> []) (map strip (py_split (strip doc) (''---'' @ [CHR 0x0A])))
   \<and> (\<forall>b \<in> set (question_blocks doc). b \<noteq> [] \<and> strip b = b)"
proof -
  have 1: "join (''---'' @ [CHR 0x0A]) (py_split (strip doc) (''---'' @ [CHR 0x0A])) = strip doc"
    by (rule join_py_split) simp
  have 2: "\<forall>p \<in> set (py_split (strip doc) (''---'' @ [CHR 0x0A])).
             \<not> contains p (''---'' @ [CHR 0x0A])"
    using py_split_pieces[of "''---'' @ [CHR 0x0A]" _ "strip doc"] by blast
  have 3: "question_blocks doc
       = filter (\<lambda>b. b \<noteq> []) (map strip (py_split (strip doc) (''---'' @ [CHR 0x0A])))"
    unfolding question_blocks_def by (simp only: filter_map o_def)
  have 4: "\<forall>b \<in> set (question_blocks doc). b \<noteq> [] \<and> strip b = b"
    unfolding question_blocks_def by (auto simp: strip_strip)
  from 1 2 3 4 show ?thesis by blast
qed

theorem question_blocks_split_witness:
  "\<not> endswith (strip ''a\<newline>---\<newline>\<newline>---\<newline>b\<newline>'') ''---''
   \<and> CHR 0x0D \<notin> set ''a\<newline>---\<newline>\<newline>---\<newline>b\<newline>''
   \<and> py_split (strip ''a\<newline>---\<newline>\<newline>---\<newline>b\<newline>'') (''---'' @ [CHR 0x0A]) = [''a\<newline>'', ''\<newline>'', ''b'']
   \<and> question_blocks ''a\<newline>---\<newline>\<newline>---\<newline>b\<newline>'' = [''a'', ''b'']
   \<and> \<not> contains ''a\<newline>'' (''---'' @ [CHR 0x0A])
   \<and> strip ''a'' = ''a''"
proof -
  have h: "\<not> endswith (strip ''a\<newline>---\<newline>\<newline>---\<newline>b\<newline>'') ''---''"
    "CHR 0x0D \<notin> set ''a\<newline>---\<newline>\<newline>---\<newline>b\<newline>''"
    by code_simp+
  have s: "py_split (strip ''a\<newline>---\<newline>\<newline>---\<newline>b\<newline>'') (''---'' @ [CHR 0x0A])
           = [''a\<newline>'', ''\<newline>'', ''b'']"
    by code_simp
  have q: "question_blocks ''a\<newline>---\<newline>\<newline>---\<newline>b\<newline>'' = [''a'', ''b'']"
    by code_simp
  from question_blocks_split[OF h] s q h show ?thesis
    by simp
qed

text \<open>
  C9, as the claim states it, fails: a \<open>---\<close> at the end of a line that holds other text
  is a cut, and a run of five dashes is a cut that leaves two dashes in the block before
  it.
\<close>

theorem question_blocks_counterexample:
  "question_blocks ''a---\<newline>b'' = [''a'', ''b'']
   \<and> question_blocks ''a\<newline>-----\<newline>b'' = [''a\<newline>--'', ''b'']"
  by code_simp

subsection \<open>The identifiers of an accepted question\<close>

text \<open>
  C10: for an accepted question the file is named after the raw \<open>id\<close> of the markup. When
  the language is \<open>ar\<close> and the metadata has the key \<open>mapped_id\<close>, \<open>metadata.id\<close> is the
  integer of \<open>mapped_id\<close> and \<open>metadata.mapped_id\<close> is the integer of \<open>id\<close>; otherwise both
  are the integer of \<open>id\<close>.
\<close>

theorem swapped_ids:
  assumes "process_single_question block now = Inr (file_name, r)"
  shows "\<exists>i qi. block_metadata block ''id'' = Some i \<and> py_int i = Some qi
           \<and> file_name = i @ ''.json''
           \<and> (if block_metadata block ''language'' = Some ''ar''
                  \<and> block_metadata block ''mapped_id'' \<noteq> None
               then (\<exists>m. block_metadata block ''mapped_id'' = Some m
                         \<and> py_int m = Some (md_id (metadata r)))
                    \<and> mapped_id (metadata r) = qi
               else md_id (metadata r) = qi \<and> mapped_id (metadata r) = qi)"
proof -
  from assms obtain lang base stmt i where
    lang: "language_of_metadata (block_metadata block) = Inr lang"
    and base: "create_base_json_structure (block_metadata block) now = Inr base"
    and i: "block_metadata block ''id'' = Some i" "file_name = i @ ''.json''"
    and r: "r = base\<lparr>parts := parts r, statement := stmt,
               metadata := (metadata base)\<lparr>parts_count := length (parts r)\<rparr>\<rparr>"
    by (rule accepted_question)
  have m: "md_id (metadata r) = md_id (metadata base)"
    "mapped_id (metadata r) = mapped_id (metadata base)"
    by (subst r, simp)+
  from base_ids[OF base lang] i m show ?thesis by auto
qed

theorem swapped_ids_witness:
  "\<exists>r. process_single_question
         ''id: 7\<newline>language: ar\<newline>mapped_id: 9\<newline>type: frq\<newline>[ANSWER]\<newline>a'' ''T''
        = Inr (''7.json'', r)
       \<and> md_id (metadata r) = 9 \<and> mapped_id (metadata r) = 7"
proof -
  let ?blk = "''id: 7\<newline>language: ar\<newline>mapped_id: 9\<newline>type: frq\<newline>[ANSWER]\<newline>a''"
  have "\<not> isl (process_single_question ?blk ''T'')"
    by code_simp
  then obtain f r where e: "process_single_question ?blk ''T'' = Inr (f, r)"
    by (cases "process_single_question ?blk ''T''") auto
  have md: "block_metadata ?blk ''id'' = Some ''7''"
    "block_metadata ?blk ''language'' = Some ''ar''"
    "block_metadata ?blk ''mapped_id'' = Some ''9''"
    by code_simp+
  have n: "py_int ''7'' = Some 7" "py_int ''9'' = Some 9"
    by code_simp+
  from swapped_ids[OF e] md n show ?thesis
    using e by auto
qed

subsection \<open>Protection of LaTeX commands\<close>

text \<open>
  C1: a LaTeX command of the equation should come back unchanged from
  \<open>convert_to_arabic_latex\<close>. The code does not achieve this: the placeholder
  \<open>__LATEX_CMD_0__\<close> that stands for the command during the substitution is itself made
  of the letters \<open>L\<close>, \<open>A\<close>, \<open>E\<close>, \<open>X\<close>, \<open>C\<close>, \<open>M\<close> and \<open>D\<close>, which are keys of
  \<open>ARABIC_LATEX_MAP\<close>, so the substitution rewrites the placeholder and the restoring loop
  finds nothing to replace. For the equation \<open>\frac{a}{b}\<close> the one command found is
  \<open>\frac{a}\<close>, and the result does not contain it.
\<close>

theorem latex_command_lost:
  "findall_commands (cmd ''frac{a}{b}'') = [cmd ''frac{a}'']
   \<and> convert_to_arabic_latex (cmd ''frac{a}{b}'')
       = ''__'' @ cmd ''lam'' @ cmd ''alt{'' @ cmd ''alef}T'' @ cmd ''hehi'' @ cmd []
         @ cmd ''fehee'' @ cmd ''noont_'' @ cmd ''jeemi'' @ cmd ''meem'' @ cmd ''dal_0__{b}''
   \<and> \<not> contains (convert_to_arabic_latex (cmd ''frac{a}{b}'')) (cmd ''frac{a}'')"
  by code_simp

subsection \<open>Blank markers\<close>

text \<open>
  C2: the markers that replace \<open>_____\<close> and \<open>[BLANK]\<close> should reach the output as HTML
  markup. In the code the replacement comes before the segments of plain text are
  escaped, so the marker is escaped with the text around it: the text \<open>_____\<close> is
  rendered with \<open>&lt;span ...&gt;&amp;nbsp;&lt;/span&gt;\<close> and the output does not contain
  the marker; the stem \<open>[BLANK]\<close> of a gap text is rendered in the same way.
\<close>

theorem blank_marker_escaped:
  "process_text_for_html ''_____'' ENGLISH
     = ''<p class=\"LexicalTheme__paragraph\"><span style=\"white-space: pre-wrap;\">''
       @ ''&lt;span data-node-type=\"blank-line\" data-node-variation=\"space\"&gt;''
       @ ''&amp;nbsp;&lt;/span&gt;</span></p>''
   \<and> \<not> contains (process_text_for_html ''_____'' ENGLISH) blank_html
   \<and> process_gap_text_part [''gaps'' \<mapsto> ''g'', ''stem'' \<mapsto> ''[BLANK]''] ENGLISH
     = Inr ([(''g'', 1)],
         ''<p class=\"LexicalTheme__paragraph\"><span style=\"white-space: pre-wrap;\">''
         @ ''&lt;span data-node-type=\"blank-line\" data-node-variation=\"gap\"&gt;''
         @ ''&amp;nbsp;&lt;/span&gt;</span></p>'')"
  by code_simp

subsection \<open>The batch driver on a document without blocks\<close>

text \<open>
  C5: \<open>process_google_doc\<close> should return its statistics for every document. For a
  document that holds no question block, such as one blank, \<open>total_questions\<close> is 0 and
  the division in the last log line raises \<open>ZeroDivisionError\<close>, which nothing catches.
\<close>

theorem process_google_doc_blank:
  "process_google_doc '' '' now = Inl ZeroDivisionError"
  by (simp add: process_google_doc_def new_batch_def question_blocks_def strip_def lstrip_def
        rstrip_def isspace_def py_split.simps)

end
